theory Spec2Isabelle
  imports Main "HOL-Library.Sublist"
begin

section \<open>JavaScript strings and arrays\<close>

text \<open>
  A JavaScript string is modelled as a list of code units below 256 (\<open>char\<close>), which
  covers the command lines the supervisor receives. The whitespace class \<open>\s\<close> of a
  regular expression and of \<open>String.prototype.trim\<close> is, in that range, TAB, LF, VT, FF,
  CR, SPACE and NBSP.
\<close>

definition is_space :: "char \<Rightarrow> bool" where
  "is_space c = (c \<in> set [CHR 0x09, CHR 0x0A, CHR 0x0B, CHR 0x0C, CHR 0x0D, CHR 0x20, CHR 0xA0])"

text \<open>\<open>s.trim()\<close>\<close>

definition trim :: "string \<Rightarrow> string" where
  "trim s = rev (dropWhile is_space (rev (dropWhile is_space s)))"

text \<open>
  \<open>s.split(/\s+/)\<close>: the pieces between the maximal runs of whitespace. A run at the
  start or at the end of the string leaves an empty piece there, and the empty string
  splits into one empty piece.
\<close>

function split_ws :: "string \<Rightarrow> string list" where
  "split_ws [] = [[]]"
| "split_ws (c # cs) =
     (if is_space c then [] # split_ws (dropWhile is_space cs)
      else (case split_ws cs of [] \<Rightarrow> [[c]] | t # ts \<Rightarrow> (c # t) # ts))"
  by pat_completeness auto
termination
  by (relation "measure length") (auto simp: length_dropWhile_le less_Suc_eq_le)

text \<open>The first position at which \<open>sub\<close> occurs in a list.\<close>

fun first_index :: "'a list \<Rightarrow> 'a list \<Rightarrow> nat option" where
  "first_index sub [] = (if sub = [] then Some 0 else None)"
| "first_index sub (c # cs) =
     (if prefix sub (c # cs) then Some 0 else map_option Suc (first_index sub cs))"

text \<open>Positions given to \<open>indexOf\<close> and \<open>substring\<close> are clamped to \<open>0..length\<close>.\<close>

definition clamp_index :: "int \<Rightarrow> nat \<Rightarrow> nat" where
  "clamp_index i n = (if i < 0 then 0 else min (nat i) n)"

text \<open>\<open>s.indexOf(sub, pos)\<close>, with \<open>-1\<close> when there is no occurrence at or after \<open>pos\<close>.\<close>

definition indexOf :: "string \<Rightarrow> string \<Rightarrow> int \<Rightarrow> int" where
  "indexOf s sub pos =
     (let k = clamp_index pos (length s)
      in case first_index sub (drop k s) of None \<Rightarrow> - 1 | Some i \<Rightarrow> int (k + i))"

text \<open>\<open>s.substring(a, b)\<close>: both ends clamped, and swapped when \<open>a > b\<close>.\<close>

definition substring :: "string \<Rightarrow> int \<Rightarrow> int \<Rightarrow> string" where
  "substring s a b =
     (let fs = clamp_index a (length s);
          fe = clamp_index b (length s);
          lo = min fs fe;
          hi = max fs fe
      in take (hi - lo) (drop lo s))"

text \<open>\<open>s.substring(a)\<close>\<close>

definition substring_from :: "string \<Rightarrow> int \<Rightarrow> string" where
  "substring_from s a = substring s a (int (length s))"

text \<open>\<open>xs.indexOf(x, pos)\<close> on an array, for \<open>pos \<ge> 0\<close> as the callers pass it.\<close>

fun elem_index :: "'a \<Rightarrow> 'a list \<Rightarrow> nat option" where
  "elem_index x [] = None"
| "elem_index x (y # ys) = (if x = y then Some 0 else map_option Suc (elem_index x ys))"

definition array_indexOf :: "'a list \<Rightarrow> 'a \<Rightarrow> int \<Rightarrow> int" where
  "array_indexOf xs x pos =
     (let k = (if pos < 0 then nat (max 0 (int (length xs) + pos)) else nat pos)
      in case elem_index x (drop k xs) of None \<Rightarrow> - 1 | Some i \<Rightarrow> int (k + i))"

text \<open>\<open>xs[i]\<close>: \<open>undefined\<close> (here \<open>None\<close>) outside the array.\<close>

definition array_get :: "'a list \<Rightarrow> int \<Rightarrow> 'a option" where
  "array_get xs i = (if 0 \<le> i \<and> i < int (length xs) then Some (xs ! nat i) else None)"

section \<open>The cohort supervisor: scripts/azure/runScripts.js\<close>

subsection \<open>State\<close>

text \<open>
  A forked child process together with what its \<open>exit\<close> handler closes over: the
  parameters of the \<open>spawnScript\<close> call that forked it. \<open>cid\<close> tells two children
  with equal parameters apart.
\<close>

record child =
  cid :: nat
  c_module :: string
  c_arrayArgs :: "string list option"
  c_stringArgs :: "string option"
  c_tryNum :: nat

text \<open>
  Reading a property of \<open>undefined\<close> throws: \<open>scriptArgs.indexOf\<close> when \<open>--script\<close> is the
  last element of \<open>argv\<close>.
\<close>

datatype js_error = TypeError

datatype level = Console | Debug | Verbose | Info | Error

text \<open>One constructor for each logging call of the file, with the values it is given.\<close>

datatype log_entry =
    SpawningChildProcess string "string list"
  | GotError nat string
  | ExittedWithCode string "int option" "string option"
  | BadExitCodeRetrying string
  | AllChildrenHaveExitted
  | RunningScripts
  | RawArgs "string list"
  | OnboardArgIndex int
  | OnboardArgs "string option"
  | ClusterArgIndex int
  | ClusterArgs "string option"
  | ScriptArgIndex int
  | ScriptArgs "string list"
  | NextScriptArgIndex int
  | RebootSignalledExitting
  | ErrorRunningScripts js_error
  | DoneSpawningScripts

fun level_of :: "log_entry \<Rightarrow> level" where
  "level_of (SpawningChildProcess m a) = Debug"
| "level_of (GotError p e) = Error"
| "level_of (ExittedWithCode m c g) = Verbose"
| "level_of (BadExitCodeRetrying m) = Info"
| "level_of AllChildrenHaveExitted = Info"
| "level_of RunningScripts = Info"
| "level_of (RawArgs a) = Debug"
| "level_of (OnboardArgIndex i) = Debug"
| "level_of (OnboardArgs a) = Debug"
| "level_of (ClusterArgIndex i) = Debug"
| "level_of (ClusterArgs a) = Debug"
| "level_of (ScriptArgIndex i) = Debug"
| "level_of (ScriptArgs a) = Debug"
| "level_of (NextScriptArgIndex i) = Debug"
| "level_of RebootSignalledExitting = Info"
| "level_of (ErrorRunningScripts e) = Console"
| "level_of DoneSpawningScripts = Debug"

text \<open>The two places that call \<open>process.exit()\<close> once scripts are running.\<close>

datatype exit_site = ChildrenExitted | RebootSignalled

text \<open>
  The supervisor: the module variable \<open>waiting\<close>, the children whose \<open>exit\<close> event is
  still to come, every \<open>childProcess.fork\<close> call made so far (module and argument list),
  the logging calls made so far, the calls of \<open>process.exit\<close> (site and exit status) and
  the number of \<open>ipc.once('REBOOT')\<close> subscriptions.
\<close>

record supervisor =
  waiting :: int
  children :: "child list"
  forked :: "(string \<times> string list) list"
  next_cid :: nat
  logged :: "log_entry list"
  exit_calls :: "(exit_site \<times> int) list"
  reboot_subs :: nat

definition init :: supervisor where
  "init = \<lparr>waiting = 0, children = [], forked = [], next_cid = 0, logged = [],
            exit_calls = [], reboot_subs = 0\<rparr>"

definition MAX_TRIES :: nat where
  "MAX_TRIES = 3"

definition logger :: "log_entry \<Rightarrow> supervisor \<Rightarrow> supervisor" where
  "logger e s = s\<lparr>logged := logged s @ [e]\<rparr>"

text \<open>
  \<open>process.exit()\<close> is always called without a code and the file never assigns
  \<open>process.exitCode\<close>, so the exit status is 0.
\<close>

definition process_exit :: "exit_site \<Rightarrow> supervisor \<Rightarrow> supervisor" where
  "process_exit site s = s\<lparr>exit_calls := exit_calls s @ [(site, 0)]\<rparr>"

subsection \<open>spawnScript\<close>

text \<open>The argument list given to \<open>fork\<close> (lines 29 and 36 to 40).\<close>

definition fork_args :: "string list option \<Rightarrow> string option \<Rightarrow> string list" where
  "fork_args arrayArgs stringArgs =
     (let args = (case arrayArgs of None \<Rightarrow> [] | Some a \<Rightarrow> a)
      in case stringArgs of
           None \<Rightarrow> args
         | Some str \<Rightarrow> if str = [] then args else args @ split_ws (trim str))"

text \<open>
  \<open>spawnScript(module, arrayArgs, stringArgs, tryNum)\<close> up to the registration of the
  handlers: \<open>tryNum\<close> defaults to 1, the child is forked, \<open>waiting\<close> is incremented.
  \<open>childProcess.fork\<close> is taken to return the child.
\<close>

definition spawnScript ::
  "string \<Rightarrow> string list option \<Rightarrow> string option \<Rightarrow> nat option \<Rightarrow> supervisor \<Rightarrow> supervisor" where
  "spawnScript module arrayArgs stringArgs tryNum s =
     (let n = (case tryNum of None \<Rightarrow> 1 | Some t \<Rightarrow> t);
          args = fork_args arrayArgs stringArgs;
          s1 = logger (SpawningChildProcess module args) s;
          cp = \<lparr>cid = next_cid s1, c_module = module, c_arrayArgs = arrayArgs,
                c_stringArgs = stringArgs, c_tryNum = n\<rparr>
      in s1\<lparr>children := children s1 @ [cp],
             forked := forked s1 @ [(module, args)],
             next_cid := Suc (next_cid s1),
             waiting := waiting s1 + 1\<rparr>)"

text \<open>The \<open>exit\<close> handler of a child (lines 59 to 75), with the child's exit code and signal.\<close>

definition on_exit :: "child \<Rightarrow> int option \<Rightarrow> string option \<Rightarrow> supervisor \<Rightarrow> supervisor" where
  "on_exit cp code signal s =
     (let s1 = logger (ExittedWithCode (c_module cp) code signal)
                 (s\<lparr>children := remove1 cp (children s)\<rparr>);
          s2 = (if code \<noteq> None \<and> code \<noteq> Some 0 \<and> c_tryNum cp < MAX_TRIES
                then spawnScript (c_module cp) (c_arrayArgs cp) (c_stringArgs cp)
                       (Some (c_tryNum cp + 1))
                       (logger (BadExitCodeRetrying (c_module cp)) s1)
                else s1);
          s3 = s2\<lparr>waiting := waiting s2 - 1\<rparr>
      in if waiting s3 = 0
         then process_exit ChildrenExitted (logger AllChildrenHaveExitted s3)
         else s3)"

text \<open>The \<open>error\<close> handler of a child (lines 55 to 57).\<close>

definition on_error :: "child \<Rightarrow> string \<Rightarrow> supervisor \<Rightarrow> supervisor" where
  "on_error cp err s = logger (GotError (cid cp) err) s"

text \<open>The callback of \<open>ipc.once('REBOOT')\<close> (lines 235 to 238).\<close>

definition on_reboot :: "supervisor \<Rightarrow> supervisor" where
  "on_reboot s = process_exit RebootSignalled (logger RebootSignalledExitting s)"

subsection \<open>run\<close>

text \<open>
  The argument list built from one \<open>--script\<close> value (lines 195 to 224). The position of
  \<open>--cl-args\<close> is that of its first occurrence in the string; \<open>CHR 0x27\<close> is the single
  quote.
\<close>

definition script_args :: "string \<Rightarrow> string list" where
  "script_args scriptArgs =
     (let clArgIndex = indexOf scriptArgs ''--cl-args'' 0
      in if clArgIndex \<noteq> - 1 then
           (let clArgStart = indexOf scriptArgs [CHR 0x27] clArgIndex;
                clArgEnd = indexOf scriptArgs [CHR 0x27] (clArgStart + 1);
                args1 = [''--cl-args'', substring scriptArgs (clArgStart + 1) clArgEnd];
                args2 = (if clArgIndex > 0
                         then args1 @ split_ws (trim (substring scriptArgs 0 clArgIndex))
                         else args1);
                args3 = (if clArgEnd < int (length scriptArgs) - 1
                         then args2 @ split_ws (trim (substring_from scriptArgs (clArgEnd + 1)))
                         else args2)
            in args3)
         else split_ws scriptArgs)"

lemma elem_index_less: "elem_index x ys = Some i \<Longrightarrow> i < length ys"
  by (induction ys arbitrary: i) (auto split: if_splits)

lemma array_indexOf_range:
  "0 \<le> pos \<Longrightarrow> array_indexOf xs x pos \<noteq> - 1 \<Longrightarrow>
   pos \<le> array_indexOf xs x pos \<and> array_indexOf xs x pos < int (length xs)"
  by (auto simp: array_indexOf_def Let_def split: option.splits dest!: elem_index_less)

text \<open>
  The loop over the \<open>--script\<close> options (lines 194 to 230), entered with the index of the
  first one. It returns the exception thrown, if any, and the state reached.
\<close>

function script_loop :: "string list \<Rightarrow> int \<Rightarrow> supervisor \<Rightarrow> js_error option \<times> supervisor" where
  "script_loop argv argIndex s =
     (if argIndex = - 1 then (None, s)
      else case array_get argv (argIndex + 1) of
             None \<Rightarrow> (Some TypeError, s)
           | Some scriptArgs \<Rightarrow>
               (let args = script_args scriptArgs;
                    s1 = logger (ScriptArgs args) s;
                    s2 = spawnScript ''runScript.js'' (Some args) None None s1;
                    nextIndex = array_indexOf argv ''--script'' (argIndex + 1);
                    s3 = logger (NextScriptArgIndex nextIndex) s2
                in script_loop argv nextIndex s3))"
  by pat_completeness auto
termination
  apply (relation "measure (\<lambda>(argv, i, s). if i = - 1 then 0 else nat (int (length argv) + 1 - i))")
   apply simp
  subgoal for argv argIndex s x2 x xa xb xc
    using array_indexOf_range [of "argIndex + 1" argv "''--script''"]
    by (auto simp: array_get_def split: if_splits)
  done

declare script_loop.simps [simp del]

text \<open>
  The \<open>try\<close> block of \<open>run\<close> from the point where the logger exists (lines 170 to 238):
  the workers are spawned and the \<open>REBOOT\<close> wait is subscribed last; \<open>ipc.once\<close> is
  taken to return its promise. The preparation of the host before that point (lines 100
  to 168) is not part of the model.
\<close>

definition run_try :: "string list \<Rightarrow> supervisor \<Rightarrow> js_error option \<times> supervisor" where
  "run_try argv s =
     (let s1 = logger (RawArgs argv) (logger RunningScripts s);
          onboardIndex = array_indexOf argv ''--onboard'' 0;
          s2 = logger (OnboardArgIndex onboardIndex) s1;
          s3 = (if onboardIndex \<noteq> - 1
                then (let scriptArgs = array_get argv (onboardIndex + 1)
                      in spawnScript ''onboard.js'' None scriptArgs None
                           (logger (OnboardArgs scriptArgs) s2))
                else s2);
          clusterIndex = array_indexOf argv ''--cluster'' 0;
          s4 = logger (ClusterArgIndex clusterIndex) s3;
          s5 = (if clusterIndex \<noteq> - 1
                then (let scriptArgs = array_get argv (clusterIndex + 1)
                      in spawnScript ''cluster.js'' None scriptArgs None
                           (logger (ClusterArgs scriptArgs) s4))
                else s4);
          scriptIndex = array_indexOf argv ''--script'' 0;
          s6 = logger (ScriptArgIndex scriptIndex) s5
      in case script_loop argv scriptIndex s6 of
           (Some err, s7) \<Rightarrow> (Some err, s7)
         | (None, s7) \<Rightarrow> (None, s7\<lparr>reboot_subs := reboot_subs s7 + 1\<rparr>))"

text \<open>\<open>run\<close>: the \<open>try\<close> block, the \<open>catch\<close> that prints the exception, the last debug line.\<close>

definition run :: "string list \<Rightarrow> supervisor \<Rightarrow> supervisor" where
  "run argv s =
     (case run_try argv s of
        (None, s1) \<Rightarrow> logger DoneSpawningScripts s1
      | (Some err, s1) \<Rightarrow> logger DoneSpawningScripts (logger (ErrorRunningScripts err) s1))"

subsection \<open>The event loop\<close>

text \<open>
  What the event loop can deliver once \<open>run\<close> has returned: the exit or the error of a
  child, and the resolution of the \<open>REBOOT\<close> wait. A handler runs to completion; after
  \<open>process.exit\<close> no handler runs any more. An \<open>exit\<close> event reaches only the handler
  of a child that has not exited yet, and the \<open>REBOOT\<close> callback exists only when the
  wait was subscribed.
\<close>

datatype event =
    ChildExit child "int option" "string option"
  | ChildError child string
  | RebootObserved

definition step :: "event \<Rightarrow> supervisor \<Rightarrow> supervisor" where
  "step e s =
     (if exit_calls s \<noteq> [] then s
      else case e of
             ChildExit cp code signal \<Rightarrow>
               if cp \<in> set (children s) then on_exit cp code signal s else s
           | ChildError cp err \<Rightarrow>
               if cp \<in> set (children s) then on_error cp err s else s
           | RebootObserved \<Rightarrow>
               if 0 < reboot_subs s then on_reboot s else s)"

definition steps :: "event list \<Rightarrow> supervisor \<Rightarrow> supervisor" where
  "steps es s = foldl (\<lambda>t e. step e t) s es"

subsection \<open>The invariant of a running cohort\<close>

text \<open>
  What holds of every state the supervisor reaches: the children differ by \<open>cid\<close>, each was
  forked with the module and arguments its handler closes over, on an attempt between 1 and
  \<open>MAX_TRIES\<close>; and either \<open>process.exit\<close> was not called and \<open>waiting\<close> counts the
  children, or the exit handler called it once with no child left, or the \<open>REBOOT\<close>
  callback called it once.
\<close>

definition cohort_inv :: "supervisor \<Rightarrow> bool" where
  "cohort_inv s \<longleftrightarrow>
     distinct (map cid (children s)) \<and>
     list_all (\<lambda>cp. cid cp < next_cid s \<and> 1 \<le> c_tryNum cp \<and> c_tryNum cp \<le> MAX_TRIES \<and>
                    (c_module cp, fork_args (c_arrayArgs cp) (c_stringArgs cp)) \<in> set (forked s))
       (children s) \<and>
     reboot_subs s \<le> 1 \<and>
     (exit_calls s = [] \<and> waiting s = int (length (children s))
      \<or> exit_calls s = [(ChildrenExitted, 0)] \<and> children s = [] \<and> waiting s = 0
      \<or> exit_calls s = [(RebootSignalled, 0)] \<and> waiting s = int (length (children s)) \<and>
         reboot_subs s = 1)"

section \<open>The signal store: lib/ipc.js\<close>

text \<open>
  Modelled from the spec: \<open>lib/ipc.js\<close> is not among the sources (only its tests are), so
  the store is written from sections 3, 4.1 and 7 of the specification. The operations
  carry the spec's names; the tests call them \<open>send\<close> (raise), \<open>once\<close> (awaitOnce) and
  \<open>clearSignals\<close> (clearAll).
\<close>

text \<open>
  Modelled from the spec: an I/O error of the filesystem, for a reason other than "already
  exists" or "already absent".
\<close>

datatype io_error = IOError string

text \<open>
  Modelled from the spec: the four kinds of filesystem operation the error taxonomy names
  (creation of the directory or of a marker, existence check, enumeration, deletion).
\<close>

datatype fs_op = Create | Exists | Enumerate | Delete

text \<open>
  Modelled from the spec: the filesystem as the store meets it, saying which kinds of
  operation fail and with which error.
\<close>

type_synonym faults = "fs_op \<Rightarrow> io_error option"

text \<open>Modelled from the spec: a filesystem on which nothing fails.\<close>

definition no_faults :: faults where
  "no_faults = (\<lambda>_. None)"

text \<open>
  Modelled from the spec: a wait returned by \<open>awaitOnce\<close> is pending, resolved or rejected
  with an I/O error; \<open>w_fired\<close> counts how often it has resolved.
\<close>

datatype wait_status = Pending | Resolved | Rejected io_error

text \<open>Modelled from the spec: a wait, with the name it waits for.\<close>

record waiter =
  w_name :: string
  w_status :: wait_status
  w_fired :: nat

text \<open>
  Modelled from the spec: the store is one directory, which may not exist yet, holding one
  marker per raised signal; the waits outstanding on it are kept beside it.
\<close>

record signal_store =
  dir_exists :: bool
  markers :: "string set"
  waiters :: "waiter list"

text \<open>Modelled from the spec: the store before its first use, with no directory yet.\<close>

definition empty_store :: signal_store where
  "empty_store = \<lparr>dir_exists = False, markers = {}, waiters = []\<rparr>"

text \<open>Modelled from the spec: the directory is created lazily, on first use.\<close>

definition ensure_dir :: "faults \<Rightarrow> signal_store \<Rightarrow> io_error + signal_store" where
  "ensure_dir flt st =
     (if dir_exists st then Inr st
      else case flt Create of Some e \<Rightarrow> Inl e | None \<Rightarrow> Inr (st\<lparr>dir_exists := True\<rparr>))"

text \<open>
  Modelled from the spec: \<open>raise(name)\<close> creates the directory if absent, then the marker
  if absent; a failure of either creation goes to the caller.
\<close>

definition raise :: "faults \<Rightarrow> string \<Rightarrow> signal_store \<Rightarrow> io_error + signal_store" where
  "raise flt name st =
     (case ensure_dir flt st of
        Inl e \<Rightarrow> Inl e
      | Inr st1 \<Rightarrow>
          if name \<in> markers st1 then Inr st1
          else case flt Create of
                 Some e \<Rightarrow> Inl e
               | None \<Rightarrow> Inr (st1\<lparr>markers := insert name (markers st1)\<rparr>))"

text \<open>Modelled from the spec: \<open>testSynchronous(name)\<close>, the existence check.\<close>

definition testSynchronous :: "faults \<Rightarrow> string \<Rightarrow> signal_store \<Rightarrow> io_error + bool" where
  "testSynchronous flt name st =
     (case flt Exists of Some e \<Rightarrow> Inl e | None \<Rightarrow> Inr (name \<in> markers st))"

text \<open>
  Modelled from the spec: one poll of one wait. A wait that is no longer pending is left
  alone; a pending one is rejected when the existence check fails, resolved when the marker
  is there, and stays pending otherwise.
\<close>

definition check :: "faults \<Rightarrow> signal_store \<Rightarrow> waiter \<Rightarrow> waiter" where
  "check flt st w =
     (if w_status w \<noteq> Pending then w
      else case testSynchronous flt (w_name w) st of
             Inl e \<Rightarrow> w\<lparr>w_status := Rejected e\<rparr>
           | Inr True \<Rightarrow> w\<lparr>w_status := Resolved, w_fired := w_fired w + 1\<rparr>
           | Inr False \<Rightarrow> w)"

text \<open>Modelled from the spec: a tick of the poll timer checks every wait.\<close>

definition poll :: "faults \<Rightarrow> signal_store \<Rightarrow> signal_store" where
  "poll flt st = st\<lparr>waiters := map (check flt st) (waiters st)\<rparr>"

text \<open>
  Modelled from the spec: \<open>awaitOnce(name)\<close> creates the directory if absent and registers
  a wait that is checked at once, so a signal already raised resolves it immediately.
\<close>

definition awaitOnce :: "faults \<Rightarrow> string \<Rightarrow> signal_store \<Rightarrow> io_error + signal_store" where
  "awaitOnce flt name st =
     (case ensure_dir flt st of
        Inl e \<Rightarrow> Inl e
      | Inr st1 \<Rightarrow>
          Inr (st1\<lparr>waiters := waiters st1 @
                 [check flt st1 \<lparr>w_name = name, w_status = Pending, w_fired = 0\<rparr>]\<rparr>))"

text \<open>
  Modelled from the spec: \<open>clearAll()\<close> enumerates the markers and removes them all; with
  nothing to remove nothing is deleted.
\<close>

definition clearAll :: "faults \<Rightarrow> signal_store \<Rightarrow> io_error + signal_store" where
  "clearAll flt st =
     (case flt Enumerate of
        Some e \<Rightarrow> Inl e
      | None \<Rightarrow>
          if markers st = {} then Inr st
          else case flt Delete of Some e \<Rightarrow> Inl e | None \<Rightarrow> Inr (st\<lparr>markers := {}\<rparr>))"

text \<open>
  Modelled from the spec: any sequence of store operations by any processes. An operation
  that fails hands its error to its caller and leaves the store as it was.
\<close>

datatype store_op = Raise string | AwaitOnce string | Poll | ClearAll

text \<open>Modelled from the spec: one operation, as the store is left by it.\<close>

fun apply_op :: "faults \<Rightarrow> store_op \<Rightarrow> signal_store \<Rightarrow> signal_store" where
  "apply_op flt (Raise n) st = (case raise flt n st of Inl e \<Rightarrow> st | Inr st1 \<Rightarrow> st1)"
| "apply_op flt (AwaitOnce n) st = (case awaitOnce flt n st of Inl e \<Rightarrow> st | Inr st1 \<Rightarrow> st1)"
| "apply_op flt Poll st = poll flt st"
| "apply_op flt ClearAll st = (case clearAll flt st of Inl e \<Rightarrow> st | Inr st1 \<Rightarrow> st1)"

text \<open>Modelled from the spec: the operations of a sequence, one after the other.\<close>

definition apply_ops :: "faults \<Rightarrow> store_op list \<Rightarrow> signal_store \<Rightarrow> signal_store" where
  "apply_ops flt ops st = foldl (\<lambda>t op. apply_op flt op t) st ops"

section \<open>The onboarding worker: scripts/onboard.js\<close>

text \<open>
  The part of \<open>run\<close> that decides which signals the worker sends and when it exits: the
  \<open>catch\<close> and \<open>done\<close> handlers that end the promise chain and the callbacks of the
  two waits subscribed after it. The script is the second listing of
  \<open>src/test/lib/ipcTests.js\<close>, whose line numbers are the ones given here. The names of
  the signals come from \<open>lib/signals.js\<close>, which is not among the sources: they are a
  parameter.
\<close>

record signal_names =
  CLOUD_LIBS_ERROR :: string
  ONBOARD_DONE :: string

text \<open>
  What the handlers do to the outside: \<open>ipc.send\<close>, \<open>util.logError\<close>,
  \<open>util.logAndExit(message, level, code)\<close>, \<open>util.deleteUser\<close>, \<open>util.deleteArgs\<close>, the
  callback \<open>cb\<close> and \<open>util.reboot\<close> with its \<open>signalOnly\<close> option. Calls of the logger
  are left out.
\<close>

datatype effect =
    IpcSend string
  | LogError string
  | LogAndExit string "string option" "int option"
  | DeleteUser
  | DeleteArgs
  | Callback
  | RebootDevice bool

text \<open>
  The value the chain is rejected with: nothing (\<open>err\<close> is falsy), an \<open>ActiveError\<close>, or
  another error with its message.
\<close>

datatype failure = NoReason | ActiveError string | OtherError string

text \<open>
  The worker: the options the handlers read, whether a callback was given, the variables
  \<open>rebooting\<close> and \<open>exiting\<close>, whether the \<open>done\<close> handler has run, whether the waits
  for \<open>CLOUD_LIBS_ERROR\<close> and \<open>REBOOT\<close> are still outstanding, and the effects so far.
\<close>

record onboard =
  opt_signal :: "string option"
  opt_reboot :: bool
  opt_user :: "string option"
  has_cb :: bool
  rebooting :: bool
  exiting :: bool
  chain_done :: bool
  error_wait :: bool
  reboot_wait :: bool
  effects :: "effect list"

text \<open>A value that JavaScript takes as true: defined and not the empty string.\<close>

definition truthy :: "string option \<Rightarrow> bool" where
  "truthy v = (case v of None \<Rightarrow> False | Some s \<Rightarrow> s \<noteq> [])"

text \<open>\<open>options.signal || signals.ONBOARD_DONE\<close>\<close>

definition done_signal :: "signal_names \<Rightarrow> onboard \<Rightarrow> string" where
  "done_signal sg w =
     (case opt_signal w of
        None \<Rightarrow> ONBOARD_DONE sg
      | Some s \<Rightarrow> if s = [] then ONBOARD_DONE sg else s)"

definition emit :: "effect list \<Rightarrow> onboard \<Rightarrow> onboard" where
  "emit es w = w\<lparr>effects := effects w @ es\<rparr>"

text \<open>The \<open>catch\<close> handler (lines 1158 to 1183).\<close>

definition on_catch :: "signal_names \<Rightarrow> failure \<Rightarrow> onboard \<Rightarrow> onboard" where
  "on_catch sg err w =
     (case err of
        ActiveError m \<Rightarrow> emit [RebootDevice (\<not> opt_reboot w)] (w\<lparr>rebooting := True\<rparr>)
      | _ \<Rightarrow>
          (let message = (case err of OtherError m \<Rightarrow> m | _ \<Rightarrow> ''unknown reason'');
               error = ''Onboard failed: '' @ message
           in (emit [IpcSend (CLOUD_LIBS_ERROR sg), LogError error,
                     LogAndExit error (Some ''error'') (Some 1)] w)\<lparr>exiting := True\<rparr>))"

text \<open>The \<open>done\<close> handler (lines 1184 to 1213).\<close>

definition on_done :: "signal_names \<Rightarrow> onboard \<Rightarrow> onboard" where
  "on_done sg w =
     (let w1 = (if \<not> truthy (opt_user w) then emit [DeleteUser] w else w);
          w2 = (if (\<not> rebooting w1 \<or> \<not> opt_reboot w1) \<and> \<not> exiting w1
                then emit [IpcSend (done_signal sg w1)] w1 else w1);
          w3 = (if has_cb w2 then emit [Callback] w2 else w2);
          w4 = (if \<not> rebooting w3 then
                  (let w' = emit [DeleteArgs] w3
                   in if \<not> exiting w' then emit [LogAndExit ''Onboard finished.'' None None] w'
                      else w')
                else if \<not> opt_reboot w3 then
                  (if \<not> exiting w3
                   then emit [LogAndExit ''Onboard finished. Reboot required but not rebooting.''
                                None None] w3
                   else w3)
                else emit [LogAndExit ''Onboard finished. Reboot required.'' None None] w3)
      in w4\<lparr>chain_done := True\<rparr>)"

text \<open>The callback of \<open>ipc.once(signals.CLOUD_LIBS_ERROR)\<close> (lines 1216 to 1220).\<close>

definition on_cloud_libs_error :: "signal_names \<Rightarrow> onboard \<Rightarrow> onboard" where
  "on_cloud_libs_error sg w =
     emit [IpcSend (done_signal sg w),
           LogAndExit ''ERROR signaled from other script. Exiting'' None None] w"

text \<open>The callback of \<open>ipc.once('REBOOT')\<close> (lines 1225 to 1230).\<close>

definition on_reboot_signal :: "onboard \<Rightarrow> onboard" where
  "on_reboot_signal w =
     (if \<not> rebooting w then emit [LogAndExit ''REBOOT signaled. Exiting.'' None None] w else w)"

text \<open>
  What the event loop delivers to the worker: the chain is fulfilled (the event carries the
  value the chain left in \<open>rebooting\<close>; what the chain does to the device is not
  modelled) or rejected, and each of the two waits resolves at most once.
\<close>

datatype onboard_event =
    ChainFulfilled bool
  | ChainRejected failure
  | ErrorSignalObserved
  | RebootSignalObserved

definition onboard_step :: "signal_names \<Rightarrow> onboard_event \<Rightarrow> onboard \<Rightarrow> onboard" where
  "onboard_step sg e w =
     (case e of
        ChainFulfilled r \<Rightarrow>
          if chain_done w then w else on_done sg (w\<lparr>rebooting := r\<rparr>)
      | ChainRejected err \<Rightarrow>
          if chain_done w then w else on_done sg (on_catch sg err w)
      | ErrorSignalObserved \<Rightarrow>
          if error_wait w then on_cloud_libs_error sg (w\<lparr>error_wait := False\<rparr>) else w
      | RebootSignalObserved \<Rightarrow>
          if reboot_wait w then on_reboot_signal (w\<lparr>reboot_wait := False\<rparr>) else w)"

text \<open>
  The worker when \<open>run\<close> returns with its options accepted: the chain is under way and
  both waits are subscribed.
\<close>

definition onboard_started :: "string option \<Rightarrow> bool \<Rightarrow> string option \<Rightarrow> bool \<Rightarrow> onboard" where
  "onboard_started sig reboot user cb =
     \<lparr>opt_signal = sig, opt_reboot = reboot, opt_user = user, has_cb = cb,
      rebooting = False, exiting = False, chain_done = False,
      error_wait = True, reboot_wait = True, effects = []\<rparr>"

section \<open>Example runs\<close>

text \<open>A supervisor started with one \<open>--onboard\<close> option, and the attempts of that worker.\<close>

definition argv_onboard :: "string list" where
  "argv_onboard = [''node'', ''runScripts.js'', ''--onboard'', ''--host 10.0.0.4 -u admin'']"

definition onboard_attempt :: "nat \<Rightarrow> nat \<Rightarrow> child" where
  "onboard_attempt i n =
     \<lparr>cid = i, c_module = ''onboard.js'', c_arrayArgs = None,
      c_stringArgs = Some ''--host 10.0.0.4 -u admin'', c_tryNum = n\<rparr>"

text \<open>
  A supervisor started with three workers. In \<open>drain_events\<close> the onboard and the cluster
  worker succeed at once and the script worker fails once, then succeeds. In
  \<open>failing_events\<close> the only worker of \<open>argv_onboard\<close> exits with code 1 on every attempt.
\<close>

definition argv_three :: "string list" where
  "argv_three = [''node'', ''runScripts.js'', ''--onboard'', ''--host 10.0.0.4 -u admin'',
                 ''--cluster'', ''--create-group'', ''--script'', ''--file setup.sh'']"

definition cluster_attempt :: "nat \<Rightarrow> nat \<Rightarrow> child" where
  "cluster_attempt i n =
     \<lparr>cid = i, c_module = ''cluster.js'', c_arrayArgs = None,
      c_stringArgs = Some ''--create-group'', c_tryNum = n\<rparr>"

definition script_attempt :: "nat \<Rightarrow> nat \<Rightarrow> child" where
  "script_attempt i n =
     \<lparr>cid = i, c_module = ''runScript.js'', c_arrayArgs = Some [''--file'', ''setup.sh''],
      c_stringArgs = None, c_tryNum = n\<rparr>"

definition drain_events :: "event list" where
  "drain_events =
     [ChildExit (onboard_attempt 0 1) (Some 0) None,
      ChildExit (cluster_attempt 1 1) (Some 0) None,
      ChildExit (script_attempt 2 1) (Some 1) None,
      ChildExit (script_attempt 3 2) (Some 0) None]"

definition failing_events :: "event list" where
  "failing_events =
     [ChildExit (onboard_attempt 0 1) (Some 1) None,
      ChildExit (onboard_attempt 1 2) (Some 1) None,
      ChildExit (onboard_attempt 2 3) (Some 1) None]"



text \<open>
  Filesystems that refuse a creation, an existence check and an enumeration, as the tests
  of the store stub \<open>fs.closeSync\<close>, \<open>fs.existsSync\<close> and \<open>fs.readdirSync\<close>; and the
  signal names as \<open>lib/signals.js\<close> is expected to give them.
\<close>

definition write_denied :: faults where
  "write_denied = (\<lambda>op. if op = Create then Some (IOError ''EACCES'') else None)"

definition exists_fails :: faults where
  "exists_fails = (\<lambda>op. if op = Exists then Some (IOError ''existsSync error'') else None)"

definition readdir_fails :: faults where
  "readdir_fails = (\<lambda>op. if op = Enumerate then Some (IOError ''readdirSync error'') else None)"

definition registry :: signal_names where
  "registry = \<lparr>CLOUD_LIBS_ERROR = ''CLOUD_LIBS_ERROR'', ONBOARD_DONE = ''ONBOARD_DONE''\<rparr>"

section \<open>Properties of the supervisor\<close>

subsection \<open>Splitting and searching strings\<close>








lemma clamp_index_0 [simp]: "clamp_index 0 n = 0"
  by (simp add: clamp_index_def)






subsection \<open>Fields after each operation\<close>

lemma logger_fields [simp]:
  "waiting (logger e s) = waiting s"
  "children (logger e s) = children s"
  "forked (logger e s) = forked s"
  "next_cid (logger e s) = next_cid s"
  "exit_calls (logger e s) = exit_calls s"
  "reboot_subs (logger e s) = reboot_subs s"
  "logged (logger e s) = logged s @ [e]"
  by (simp_all add: logger_def)

lemma process_exit_fields [simp]:
  "waiting (process_exit site s) = waiting s"
  "children (process_exit site s) = children s"
  "forked (process_exit site s) = forked s"
  "next_cid (process_exit site s) = next_cid s"
  "exit_calls (process_exit site s) = exit_calls s @ [(site, 0)]"
  "reboot_subs (process_exit site s) = reboot_subs s"
  "logged (process_exit site s) = logged s"
  by (simp_all add: process_exit_def)

lemma spawnScript_fields [simp]:
  "waiting (spawnScript m a str t s) = waiting s + 1"
  "children (spawnScript m a str t s) =
     children s @ [\<lparr>cid = next_cid s, c_module = m, c_arrayArgs = a, c_stringArgs = str,
                    c_tryNum = (case t of None \<Rightarrow> 1 | Some n \<Rightarrow> n)\<rparr>]"
  "forked (spawnScript m a str t s) = forked s @ [(m, fork_args a str)]"
  "next_cid (spawnScript m a str t s) = Suc (next_cid s)"
  "exit_calls (spawnScript m a str t s) = exit_calls s"
  "reboot_subs (spawnScript m a str t s) = reboot_subs s"
  "logged (spawnScript m a str t s) = logged s @ [SpawningChildProcess m (fork_args a str)]"
  by (simp_all add: spawnScript_def Let_def)

lemma on_exit_retry:
  assumes "k \<noteq> 0" "c_tryNum cp < MAX_TRIES"
  shows "waiting (on_exit cp (Some k) g s) = waiting s"
    and "children (on_exit cp (Some k) g s) =
           remove1 cp (children s) @
             [\<lparr>cid = next_cid s, c_module = c_module cp, c_arrayArgs = c_arrayArgs cp,
               c_stringArgs = c_stringArgs cp, c_tryNum = c_tryNum cp + 1\<rparr>]"
    and "forked (on_exit cp (Some k) g s) =
           forked s @ [(c_module cp, fork_args (c_arrayArgs cp) (c_stringArgs cp))]"
    and "next_cid (on_exit cp (Some k) g s) = Suc (next_cid s)"
    and "reboot_subs (on_exit cp (Some k) g s) = reboot_subs s"
    and "exit_calls (on_exit cp (Some k) g s) =
           (if waiting s = 0 then exit_calls s @ [(ChildrenExitted, 0)] else exit_calls s)"
    and "logged (on_exit cp (Some k) g s) =
           logged s @ [ExittedWithCode (c_module cp) (Some k) g, BadExitCodeRetrying (c_module cp),
                       SpawningChildProcess (c_module cp) (fork_args (c_arrayArgs cp) (c_stringArgs cp))]
             @ (if waiting s = 0 then [AllChildrenHaveExitted] else [])"
  using assms by (simp_all add: on_exit_def Let_def)

lemma on_exit_resolve:
  assumes "code = None \<or> code = Some 0 \<or> \<not> c_tryNum cp < MAX_TRIES"
  shows "waiting (on_exit cp code g s) = waiting s - 1"
    and "children (on_exit cp code g s) = remove1 cp (children s)"
    and "forked (on_exit cp code g s) = forked s"
    and "next_cid (on_exit cp code g s) = next_cid s"
    and "reboot_subs (on_exit cp code g s) = reboot_subs s"
    and "exit_calls (on_exit cp code g s) =
           (if waiting s = 1 then exit_calls s @ [(ChildrenExitted, 0)] else exit_calls s)"
    and "logged (on_exit cp code g s) =
           logged s @ [ExittedWithCode (c_module cp) code g]
             @ (if waiting s = 1 then [AllChildrenHaveExitted] else [])"
  using assms by (auto simp add: on_exit_def Let_def)

subsection \<open>The invariant is established by run and kept by every event\<close>

lemma distinct_map_remove1: "distinct (map f xs) \<Longrightarrow> distinct (map f (remove1 x xs))"
  by (auto simp: distinct_map intro: inj_on_diff)

lemma list_all_remove1: "list_all P xs \<Longrightarrow> list_all P (remove1 x xs)"
  by (induction xs) auto

lemma length_remove1_int: "x \<in> set xs \<Longrightarrow> int (length (remove1 x xs)) = int (length xs) - 1"
  by (simp add: length_remove1) (cases xs; simp)

lemma init_fields [simp]:
  "waiting init = 0" "children init = []" "forked init = []" "next_cid init = 0"
  "logged init = []" "exit_calls init = []" "reboot_subs init = 0"
  by (simp_all add: init_def)

lemma cohort_inv_init: "cohort_inv init"
  by (simp add: cohort_inv_def init_def)

lemma cohort_inv_logger: "cohort_inv (logger e s) = cohort_inv s"
  by (simp add: cohort_inv_def)

lemma cohort_inv_spawnScript:
  assumes "cohort_inv s" "exit_calls s = []"
  shows "cohort_inv (spawnScript m a str None s)"
  using assms
  by (auto simp: cohort_inv_def list_all_iff MAX_TRIES_def less_Suc_eq)

lemma cohort_inv_on_exit:
  assumes inv: "cohort_inv s" and run: "exit_calls s = []" and live: "cp \<in> set (children s)"
  shows "cohort_inv (on_exit cp code g s)"
proof (cases "code = None \<or> code = Some 0 \<or> \<not> c_tryNum cp < MAX_TRIES")
  case True
  from inv run have w: "waiting s = int (length (children s))"
    by (simp add: cohort_inv_def)
  have l: "int (length (remove1 cp (children s))) = int (length (children s)) - 1"
    using live by (rule length_remove1_int)
  from live have pos: "0 < length (children s)" by (cases "children s") auto
  show ?thesis
    using inv run w l pos
    by (auto simp: cohort_inv_def on_exit_resolve [OF True] distinct_map_remove1
          list_all_remove1)
next
  case False
  then obtain k where k: "code = Some k" "k \<noteq> 0" "c_tryNum cp < MAX_TRIES"
    by auto
  from inv run have w: "waiting s = int (length (children s))"
    by (simp add: cohort_inv_def)
  have l: "int (length (remove1 cp (children s))) = int (length (children s)) - 1"
    using live by (rule length_remove1_int)
  from live have pos: "0 < length (children s)" by (cases "children s") auto
  have sub: "\<And>c. c \<in> set (remove1 cp (children s)) \<Longrightarrow> c \<in> set (children s)"
    using set_remove1_subset [of cp "children s"] by blast
  from inv live have mine: "(c_module cp, fork_args (c_arrayArgs cp) (c_stringArgs cp)) \<in> set (forked s)"
    by (auto simp: cohort_inv_def list_all_iff)
  show ?thesis
    using inv run w l pos k(3) sub mine
    unfolding k(1)
    by (auto simp: cohort_inv_def on_exit_retry [OF k(2,3)] distinct_map_remove1
          list_all_iff less_Suc_eq dest!: sub)
qed

lemma cohort_inv_step:
  assumes "cohort_inv s"
  shows "cohort_inv (step e s)"
proof (cases "exit_calls s = []")
  case False
  then show ?thesis using assms by (simp add: step_def)
next
  case True
  show ?thesis
  proof (cases e)
    case (ChildExit cp code g)
    then show ?thesis using assms True by (simp add: step_def cohort_inv_on_exit)
  next
    case (ChildError cp err)
    then show ?thesis using assms True by (simp add: step_def on_error_def cohort_inv_logger)
  next
    case RebootObserved
    then show ?thesis using assms True
      by (auto simp: step_def on_reboot_def cohort_inv_def)
  qed
qed

lemma cohort_inv_steps: "cohort_inv s \<Longrightarrow> cohort_inv (steps es s)"
  unfolding steps_def by (induction es arbitrary: s) (auto simp: cohort_inv_step)

lemma script_loop_inv:
  "cohort_inv s \<Longrightarrow> exit_calls s = [] \<Longrightarrow> reboot_subs s = 0 \<Longrightarrow>
   cohort_inv (snd (script_loop argv i s)) \<and> exit_calls (snd (script_loop argv i s)) = [] \<and>
   reboot_subs (snd (script_loop argv i s)) = 0"
proof (induction argv i s rule: script_loop.induct)
  case (1 argv argIndex s)
  show ?case
  proof (cases "argIndex = - 1")
    case True
    then show ?thesis using "1.prems" by (simp add: script_loop.simps)
  next
    case False
    show ?thesis
    proof (cases "array_get argv (argIndex + 1)")
      case None
      then show ?thesis using False "1.prems" by (simp add: script_loop.simps)
    next
      case (Some scriptArgs)
      let ?s2 = "spawnScript ''runScript.js'' (Some (script_args scriptArgs)) None None
                   (logger (ScriptArgs (script_args scriptArgs)) s)"
      let ?n = "array_indexOf argv ''--script'' (argIndex + 1)"
      let ?s3 = "logger (NextScriptArgIndex ?n) ?s2"
      have inv3: "cohort_inv ?s3" "exit_calls ?s3 = []" "reboot_subs ?s3 = 0"
        using "1.prems" by (simp_all add: cohort_inv_logger cohort_inv_spawnScript)
      have eq: "script_loop argv argIndex s = script_loop argv ?n ?s3"
        using False Some by (subst script_loop.simps) (simp add: Let_def)
      show ?thesis
        unfolding eq
        using "1.IH" [OF False Some refl refl refl refl refl inv3] .
    qed
  qed
qed

lemma run_try_inv:
  "cohort_inv (snd (run_try argv init)) \<and> exit_calls (snd (run_try argv init)) = [] \<and>
   reboot_subs (snd (run_try argv init)) = (if fst (run_try argv init) = None then 1 else 0)"
proof -
  define s6 where "s6 =
     (let s1 = logger (RawArgs argv) (logger RunningScripts init);
          onboardIndex = array_indexOf argv ''--onboard'' 0;
          s2 = logger (OnboardArgIndex onboardIndex) s1;
          s3 = (if onboardIndex \<noteq> - 1
                then (let scriptArgs = array_get argv (onboardIndex + 1)
                      in spawnScript ''onboard.js'' None scriptArgs None
                           (logger (OnboardArgs scriptArgs) s2))
                else s2);
          clusterIndex = array_indexOf argv ''--cluster'' 0;
          s4 = logger (ClusterArgIndex clusterIndex) s3;
          s5 = (if clusterIndex \<noteq> - 1
                then (let scriptArgs = array_get argv (clusterIndex + 1)
                      in spawnScript ''cluster.js'' None scriptArgs None
                           (logger (ClusterArgs scriptArgs) s4))
                else s4)
      in logger (ScriptArgIndex (array_indexOf argv ''--script'' 0)) s5)"
  have a: "cohort_inv s6 \<and> exit_calls s6 = [] \<and> reboot_subs s6 = 0"
    unfolding s6_def Let_def
    by (simp add: cohort_inv_logger cohort_inv_spawnScript cohort_inv_init)
  have r: "run_try argv init =
     (case script_loop argv (array_indexOf argv ''--script'' 0) s6 of
           (Some err, s7) \<Rightarrow> (Some err, s7)
         | (None, s7) \<Rightarrow> (None, s7\<lparr>reboot_subs := reboot_subs s7 + 1\<rparr>))"
    unfolding run_try_def s6_def Let_def by simp
  from a script_loop_inv [of s6 argv "array_indexOf argv ''--script'' 0"]
  show ?thesis
    unfolding r
    by (auto simp: cohort_inv_def split: prod.splits option.splits)
qed

lemma run_inv:
  "cohort_inv (run argv init) \<and> exit_calls (run argv init) = [] \<and>
   reboot_subs (run argv init) = (if fst (run_try argv init) = None then 1 else 0)"
  using run_try_inv [of argv]
  by (auto simp: run_def cohort_inv_logger split: prod.splits option.splits)




lemma on_exit_exit_calls:
  "exit_calls s = [] \<Longrightarrow>
   exit_calls (on_exit cp code g s) =
     (if waiting (on_exit cp code g s) = 0 then [(ChildrenExitted, 0)] else [])"
  by (simp add: on_exit_def Let_def)

subsection \<open>Exit codes and retries\<close>

text \<open>
  C1 (as amended). A child that is still below \<open>MAX_TRIES\<close> and exits with a numeric exit
  code other than 0 is forked again with the same module and the same arguments, its
  attempt counter incremented by one, and \<open>waiting\<close> is left as it was. A child whose
  exit code is \<open>null\<close> (it was killed by a signal) is not forked again: the guard
  \<open>code !== null\<close> excludes it, the child is resolved and \<open>waiting\<close> drops by one.
\<close>

theorem respawn_on_numeric_bad_exit_only:
  assumes "exit_calls s = []" and "cp \<in> set (children s)" and "c_tryNum cp < MAX_TRIES"
  shows "(k \<noteq> 0 \<longrightarrow>
            forked (step (ChildExit cp (Some k) g) s) =
              forked s @ [(c_module cp, fork_args (c_arrayArgs cp) (c_stringArgs cp))] \<and>
            children (step (ChildExit cp (Some k) g) s) =
              remove1 cp (children s) @
                [\<lparr>cid = next_cid s, c_module = c_module cp, c_arrayArgs = c_arrayArgs cp,
                  c_stringArgs = c_stringArgs cp, c_tryNum = c_tryNum cp + 1\<rparr>] \<and>
            waiting (step (ChildExit cp (Some k) g) s) = waiting s) \<and>
         forked (step (ChildExit cp None g) s) = forked s \<and>
         children (step (ChildExit cp None g) s) = remove1 cp (children s) \<and>
         waiting (step (ChildExit cp None g) s) = waiting s - 1"
  using assms by (simp add: step_def on_exit_retry on_exit_resolve)

theorem respawn_on_numeric_bad_exit_only_witness:
  "exit_calls (run argv_onboard init) = [] \<and>
   onboard_attempt 0 1 \<in> set (children (run argv_onboard init)) \<and>
   c_tryNum (onboard_attempt 0 1) < MAX_TRIES \<and>
   forked (step (ChildExit (onboard_attempt 0 1) (Some 1) None) (run argv_onboard init)) =
     forked (run argv_onboard init) @
       [(c_module (onboard_attempt 0 1),
         fork_args (c_arrayArgs (onboard_attempt 0 1)) (c_stringArgs (onboard_attempt 0 1)))] \<and>
   waiting (step (ChildExit (onboard_attempt 0 1) (Some 1) None) (run argv_onboard init)) =
     waiting (run argv_onboard init) \<and>
   forked (step (ChildExit (onboard_attempt 0 1) None None) (run argv_onboard init)) =
     forked (run argv_onboard init) \<and>
   waiting (step (ChildExit (onboard_attempt 0 1) None None) (run argv_onboard init)) =
     waiting (run argv_onboard init) - 1"
proof -
  have a: "exit_calls (run argv_onboard init) = []" by code_simp
  have b: "onboard_attempt 0 1 \<in> set (children (run argv_onboard init))" by code_simp
  have c: "c_tryNum (onboard_attempt 0 1) < MAX_TRIES" by code_simp
  from respawn_on_numeric_bad_exit_only [OF a b c, of 1 None] a b c
  show ?thesis by simp
qed

text \<open>
  C1 as stated fails: the first attempt of the onboard worker is killed by SIGKILL (exit
  code \<open>null\<close>) while its attempt counter is 1; nothing is forked and no child is left,
  whereas the same attempt exiting with code 1 is forked again.
\<close>

theorem null_exit_code_counterexample:
  "c_tryNum (onboard_attempt 0 1) < MAX_TRIES \<and>
   onboard_attempt 0 1 \<in> set (children (run argv_onboard init)) \<and>
   forked (step (ChildExit (onboard_attempt 0 1) None (Some ''SIGKILL'')) (run argv_onboard init)) =
     forked (run argv_onboard init) \<and>
   children (step (ChildExit (onboard_attempt 0 1) None (Some ''SIGKILL'')) (run argv_onboard init)) = [] \<and>
   forked (step (ChildExit (onboard_attempt 0 1) (Some 1) None) (run argv_onboard init)) \<noteq>
     forked (run argv_onboard init)"
  by code_simp


text \<open>
  C2. A worker that exits with a numeric code other than 0 on every attempt: it is forked by
  \<open>spawnScript\<close> (attempt 1), forked again when attempt 1 exits (attempt 2) and when
  attempt 2 exits (attempt 3), each time with the same module and arguments and with
  \<open>waiting\<close> left as it was; when attempt 3 exits nothing is forked, the child is removed
  and \<open>waiting\<close> drops by exactly one. The states \<open>t1\<close>, \<open>t2\<close>, \<open>t3\<close> in which the
  attempts exit are arbitrary running states in which the attempt is live, so other
  workers may spawn and exit in between.
\<close>

theorem always_failing_worker_is_forked_three_times:
  assumes fails: "k1 \<noteq> 0" "k2 \<noteq> 0" "k3 \<noteq> 0"
    and first: "s1 = spawnScript m a str None s0" "cp1 = last (children s1)"
    and live1: "exit_calls t1 = []" "cp1 \<in> set (children t1)"
    and exit1: "t1' = step (ChildExit cp1 (Some k1) g1) t1" "cp2 = last (children t1')"
    and live2: "exit_calls t2 = []" "cp2 \<in> set (children t2)"
    and exit2: "t2' = step (ChildExit cp2 (Some k2) g2) t2" "cp3 = last (children t2')"
    and live3: "exit_calls t3 = []" "cp3 \<in> set (children t3)"
    and exit3: "t3' = step (ChildExit cp3 (Some k3) g3) t3"
  shows "forked s1 = forked s0 @ [(m, fork_args a str)] \<and>
         forked t1' = forked t1 @ [(m, fork_args a str)] \<and>
         forked t2' = forked t2 @ [(m, fork_args a str)] \<and>
         forked t3' = forked t3 \<and>
         c_tryNum cp1 = 1 \<and> c_tryNum cp2 = 2 \<and> c_tryNum cp3 = 3 \<and>
         waiting s1 = waiting s0 + 1 \<and>
         waiting t1' = waiting t1 \<and>
         waiting t2' = waiting t2 \<and>
         waiting t3' = waiting t3 - 1 \<and>
         children t3' = remove1 cp3 (children t3)"
proof -
  have cp1: "cp1 = \<lparr>cid = next_cid s0, c_module = m, c_arrayArgs = a, c_stringArgs = str, c_tryNum = 1\<rparr>"
    using first by simp
  have try1: "c_tryNum cp1 < MAX_TRIES" by (simp add: cp1 MAX_TRIES_def)
  have t1': "t1' = on_exit cp1 (Some k1) g1 t1"
    using exit1(1) live1 by (simp add: step_def)
  have cp2: "cp2 = \<lparr>cid = next_cid t1, c_module = m, c_arrayArgs = a, c_stringArgs = str, c_tryNum = 2\<rparr>"
    using exit1(2) by (simp add: t1' on_exit_retry [OF fails(1) try1]) (simp add: cp1)
  have try2: "c_tryNum cp2 < MAX_TRIES" by (simp add: cp2 MAX_TRIES_def)
  have t2': "t2' = on_exit cp2 (Some k2) g2 t2"
    using exit2(1) live2 by (simp add: step_def)
  have cp3: "cp3 = \<lparr>cid = next_cid t2, c_module = m, c_arrayArgs = a, c_stringArgs = str, c_tryNum = 3\<rparr>"
    using exit2(2) by (simp add: t2' on_exit_retry [OF fails(2) try2]) (simp add: cp2)
  have try3: "Some k3 = None \<or> Some k3 = Some 0 \<or> \<not> c_tryNum cp3 < MAX_TRIES"
    by (simp add: cp3 MAX_TRIES_def)
  have t3': "t3' = on_exit cp3 (Some k3) g3 t3"
    using exit3 live3 by (simp add: step_def)
  have f1: "forked t1' = forked t1 @ [(m, fork_args a str)]" "waiting t1' = waiting t1"
    by (simp_all add: t1' on_exit_retry [OF fails(1) try1]) (simp add: cp1)
  have f2: "forked t2' = forked t2 @ [(m, fork_args a str)]" "waiting t2' = waiting t2"
    by (simp_all add: t2' on_exit_retry [OF fails(2) try2]) (simp add: cp2)
  have f3: "forked t3' = forked t3" "waiting t3' = waiting t3 - 1"
    "children t3' = remove1 cp3 (children t3)"
    by (simp_all add: t3' on_exit_resolve [OF try3])
  show ?thesis
    using f1 f2 f3 by (simp add: first(1)) (simp add: cp1 cp2 cp3)
qed

theorem always_failing_worker_is_forked_three_times_witness:
  "length (forked (spawnScript ''onboard.js'' None (Some ''--host 10.0.0.4 -u admin'') None init)) = 1 \<and>
   length (forked (steps [ChildExit (onboard_attempt 0 1) (Some 1) None,
                 ChildExit (onboard_attempt 1 2) (Some 1) None,
                 ChildExit (onboard_attempt 2 3) (Some 1) None]
           (spawnScript ''onboard.js'' None (Some ''--host 10.0.0.4 -u admin'') None init))) = 3 \<and>
   waiting (step (ChildExit (onboard_attempt 2 3) (Some 1) None)
             (step (ChildExit (onboard_attempt 1 2) (Some 1) None)
               (step (ChildExit (onboard_attempt 0 1) (Some 1) None)
                 (spawnScript ''onboard.js'' None (Some ''--host 10.0.0.4 -u admin'') None init)))) =
     waiting (step (ChildExit (onboard_attempt 1 2) (Some 1) None)
               (step (ChildExit (onboard_attempt 0 1) (Some 1) None)
                 (spawnScript ''onboard.js'' None (Some ''--host 10.0.0.4 -u admin'') None init))) - 1"
proof -
  let ?s1 = "spawnScript ''onboard.js'' None (Some ''--host 10.0.0.4 -u admin'') None init"
  let ?t1' = "step (ChildExit (onboard_attempt 0 1) (Some 1) None) ?s1"
  let ?t2' = "step (ChildExit (onboard_attempt 1 2) (Some 1) None) ?t1'"
  let ?t3' = "step (ChildExit (onboard_attempt 2 3) (Some 1) None) ?t2'"
  have k: "(1::int) \<noteq> 0" by simp
  have c1: "onboard_attempt 0 1 = last (children ?s1)" by code_simp
  have l1: "exit_calls ?s1 = []" "onboard_attempt 0 1 \<in> set (children ?s1)" by code_simp+
  have c2: "onboard_attempt 1 2 = last (children ?t1')" by code_simp
  have l2: "exit_calls ?t1' = []" "onboard_attempt 1 2 \<in> set (children ?t1')" by code_simp+
  have c3: "onboard_attempt 2 3 = last (children ?t2')" by code_simp
  have l3: "exit_calls ?t2' = []" "onboard_attempt 2 3 \<in> set (children ?t2')" by code_simp+
  have n: "length (forked ?s1) = 1" by code_simp
  have m: "length (forked (steps [ChildExit (onboard_attempt 0 1) (Some 1) None,
                 ChildExit (onboard_attempt 1 2) (Some 1) None,
                 ChildExit (onboard_attempt 2 3) (Some 1) None] ?s1)) = 3" by code_simp
  from always_failing_worker_is_forked_three_times
         [OF k k k refl c1 l1 refl c2 l2 refl c3 l3 refl]
  show ?thesis using n m by simp
qed


subsection \<open>Draining the cohort\<close>

text \<open>
  C3. In every state reached from \<open>run\<close> by any events: \<open>process.exit\<close> has been called
  at most once; while it has not been called, \<open>waiting\<close> is the number of children whose
  exit is still to come (a retry is such a child: it is forked before the decrement); the
  call made by the exit handler happened with no child left and \<open>waiting = 0\<close>; a
  call made with a child left is the one of the \<open>REBOOT\<close> callback (C4); and the exit
  handler of a live child calls \<open>process.exit\<close> exactly when it brings \<open>waiting\<close> to
  zero, which is exactly when no child is left.
\<close>

theorem exit_when_cohort_drained:
  fixes argv :: "string list" and es :: "event list"
  defines "s \<equiv> steps es (run argv init)"
  shows "length (exit_calls s) \<le> 1 \<and>
         (exit_calls s = [] \<longrightarrow> waiting s = int (length (children s))) \<and>
         ((ChildrenExitted, 0) \<in> set (exit_calls s) \<longrightarrow> children s = [] \<and> waiting s = 0) \<and>
         (exit_calls s \<noteq> [] \<and> children s \<noteq> [] \<longrightarrow> exit_calls s = [(RebootSignalled, 0)]) \<and>
         (\<forall>cp code g. exit_calls s = [] \<and> cp \<in> set (children s) \<longrightarrow>
            (exit_calls (step (ChildExit cp code g) s) = [(ChildrenExitted, 0)]) =
              (waiting (step (ChildExit cp code g) s) = 0) \<and>
            (waiting (step (ChildExit cp code g) s) = 0) =
              (children (step (ChildExit cp code g) s) = []))"
proof -
  have inv: "cohort_inv s"
    unfolding s_def using run_inv [of argv] by (simp add: cohort_inv_steps)
  have a: "length (exit_calls s) \<le> 1"
    using inv by (auto simp: cohort_inv_def)
  have b: "exit_calls s = [] \<longrightarrow> waiting s = int (length (children s))"
    using inv by (auto simp: cohort_inv_def)
  have c: "(ChildrenExitted, 0) \<in> set (exit_calls s) \<longrightarrow> children s = [] \<and> waiting s = 0"
    using inv by (auto simp: cohort_inv_def)
  have c': "exit_calls s \<noteq> [] \<and> children s \<noteq> [] \<longrightarrow> exit_calls s = [(RebootSignalled, 0)]"
    using inv by (auto simp: cohort_inv_def)
  have d: "(exit_calls (step (ChildExit cp code g) s) = [(ChildrenExitted, 0)]) =
              (waiting (step (ChildExit cp code g) s) = 0) \<and>
            (waiting (step (ChildExit cp code g) s) = 0) =
              (children (step (ChildExit cp code g) s) = [])"
    if run: "exit_calls s = []" and live: "cp \<in> set (children s)" for cp code g
  proof -
    let ?s' = "step (ChildExit cp code g) s"
    have s': "?s' = on_exit cp code g s"
      using run live by (simp add: step_def)
    have inv': "cohort_inv ?s'"
      using inv by (rule cohort_inv_step)
    have e: "exit_calls ?s' = (if waiting ?s' = 0 then [(ChildrenExitted, 0)] else [])"
      unfolding s' using run by (rule on_exit_exit_calls)
    show ?thesis
      using inv' e by (auto simp: cohort_inv_def split: if_splits)
  qed
  show ?thesis
    using a b c c' d by blast
qed

theorem exit_when_cohort_drained_witness:
  "exit_calls (steps (butlast drain_events) (run argv_three init)) = [] \<and>
   script_attempt 3 2 \<in> set (children (steps (butlast drain_events) (run argv_three init))) \<and>
   waiting (steps (butlast drain_events) (run argv_three init)) = 1 \<and>
   exit_calls (step (ChildExit (script_attempt 3 2) (Some 0) None)
                (steps (butlast drain_events) (run argv_three init))) = [(ChildrenExitted, 0)] \<and>
   children (step (ChildExit (script_attempt 3 2) (Some 0) None)
                (steps (butlast drain_events) (run argv_three init))) = []"
proof -
  let ?s = "steps (butlast drain_events) (run argv_three init)"
  have a: "exit_calls ?s = []" by code_simp
  have b: "script_attempt 3 2 \<in> set (children ?s)" by code_simp
  have c: "children ?s = [script_attempt 3 2]" by code_simp
  have d: "waiting (step (ChildExit (script_attempt 3 2) (Some 0) None) ?s) = 0" by code_simp
  from exit_when_cohort_drained [of "butlast drain_events" argv_three] a b c d
  show ?thesis by simp
qed

subsection \<open>The reboot signal\<close>



subsection \<open>Giving up on a worker\<close>

text \<open>
  C5 (as amended). When a child on attempt \<open>MAX_TRIES\<close> exits with a numeric code other
  than 0, nothing is forked, the other children are untouched, \<open>waiting\<close> drops by one, and
  the only logging call for it is the verbose line that every exit gets (module, exit code,
  signal). If that brings \<open>waiting\<close> to zero the supervisor calls \<open>process.exit()\<close>
  with no code: the exit status is 0.
\<close>

theorem gives_up_at_max_tries:
  assumes "exit_calls s = []" and "cp \<in> set (children s)"
    and "\<not> c_tryNum cp < MAX_TRIES" and "k \<noteq> 0"
  shows "forked (step (ChildExit cp (Some k) g) s) = forked s \<and>
         children (step (ChildExit cp (Some k) g) s) = remove1 cp (children s) \<and>
         waiting (step (ChildExit cp (Some k) g) s) = waiting s - 1 \<and>
         logged (step (ChildExit cp (Some k) g) s) =
           logged s @ [ExittedWithCode (c_module cp) (Some k) g] @
             (if waiting s = 1 then [AllChildrenHaveExitted] else []) \<and>
         level_of (ExittedWithCode (c_module cp) (Some k) g) = Verbose \<and>
         exit_calls (step (ChildExit cp (Some k) g) s) =
           (if waiting s = 1 then [(ChildrenExitted, 0)] else [])"
  using assms by (simp add: step_def on_exit_resolve)

theorem gives_up_at_max_tries_witness:
  "exit_calls (steps (butlast failing_events) (run argv_onboard init)) = [] \<and>
   onboard_attempt 2 3 \<in> set (children (steps (butlast failing_events) (run argv_onboard init))) \<and>
   \<not> c_tryNum (onboard_attempt 2 3) < MAX_TRIES \<and>
   forked (step (ChildExit (onboard_attempt 2 3) (Some 1) None)
             (steps (butlast failing_events) (run argv_onboard init))) =
     forked (steps (butlast failing_events) (run argv_onboard init)) \<and>
   waiting (step (ChildExit (onboard_attempt 2 3) (Some 1) None)
             (steps (butlast failing_events) (run argv_onboard init))) = 0 \<and>
   exit_calls (step (ChildExit (onboard_attempt 2 3) (Some 1) None)
             (steps (butlast failing_events) (run argv_onboard init))) = [(ChildrenExitted, 0)]"
proof -
  let ?s = "steps (butlast failing_events) (run argv_onboard init)"
  have a: "exit_calls ?s = []" by code_simp
  have b: "onboard_attempt 2 3 \<in> set (children ?s)" by code_simp
  have c: "\<not> c_tryNum (onboard_attempt 2 3) < MAX_TRIES" by code_simp
  have d: "(1::int) \<noteq> 0" by simp
  have e: "waiting ?s = 1" by code_simp
  from gives_up_at_max_tries [OF a b c d, of None] a b c e
  show ?thesis by simp
qed

text \<open>
  C5 as stated fails: the only worker exits with code 1 on each of its three attempts, and
  the supervisor then exits with status 0; the last handler logs the exit line and the
  all-children-exited line only.
\<close>

theorem exhausted_worker_exit_status_counterexample:
  "forked (steps failing_events (run argv_onboard init)) =
     [(''onboard.js'', [''--host'', ''10.0.0.4'', ''-u'', ''admin'']),
      (''onboard.js'', [''--host'', ''10.0.0.4'', ''-u'', ''admin'']),
      (''onboard.js'', [''--host'', ''10.0.0.4'', ''-u'', ''admin''])] \<and>
   exit_calls (steps failing_events (run argv_onboard init)) = [(ChildrenExitted, 0)] \<and>
   drop (length (logged (steps (butlast failing_events) (run argv_onboard init))))
     (logged (steps failing_events (run argv_onboard init))) =
     [ExittedWithCode ''onboard.js'' (Some 1) None, AllChildrenHaveExitted]"
  by code_simp


subsection \<open>The arguments of a script worker\<close>




section \<open>Properties of the signal store\<close>

subsection \<open>Settled waits stay as they are\<close>

lemma check_settled: "w_status w \<noteq> Pending \<Longrightarrow> check flt st w = w"
  by (simp add: check_def)

lemma apply_op_waiters:
  "\<exists>ws. waiters (apply_op flt op st) = map (check flt st) (waiters st) @ ws \<or>
        waiters (apply_op flt op st) = waiters st @ ws"
  by (cases op)
     (auto simp: raise_def ensure_dir_def awaitOnce_def poll_def clearAll_def
           split: sum.splits option.splits if_splits)

lemma apply_op_settled:
  assumes "i < length (waiters st)" "w_status (waiters st ! i) \<noteq> Pending"
  shows "i < length (waiters (apply_op flt op st)) \<and> waiters (apply_op flt op st) ! i = waiters st ! i"
proof -
  from apply_op_waiters [of flt op st] obtain ws where
    "waiters (apply_op flt op st) = map (check flt st) (waiters st) @ ws \<or>
     waiters (apply_op flt op st) = waiters st @ ws" by blast
  then show ?thesis
    using assms by (auto simp: nth_append check_settled)
qed

lemma apply_ops_settled:
  "i < length (waiters st) \<Longrightarrow> w_status (waiters st ! i) \<noteq> Pending \<Longrightarrow>
   i < length (waiters (apply_ops flt ops st)) \<and> waiters (apply_ops flt ops st) ! i = waiters st ! i"
  unfolding apply_ops_def
proof (induction ops arbitrary: st)
  case Nil
  then show ?case by simp
next
  case (Cons op ops)
  from apply_op_settled [OF Cons.prems, of flt op]
  have a: "i < length (waiters (apply_op flt op st))"
    and b: "waiters (apply_op flt op st) ! i = waiters st ! i" by simp_all
  from Cons.prems b have c: "w_status (waiters (apply_op flt op st) ! i) \<noteq> Pending" by simp
  from Cons.IH [OF a c] b show ?case by simp
qed


lemma no_faults_simps [simp]: "no_faults op = None"
  by (simp add: no_faults_def)

lemma awaitOnce_no_faults:
  "awaitOnce no_faults N st =
     Inr (st\<lparr>dir_exists := True,
             waiters := waiters st @
               [if N \<in> markers st then \<lparr>w_name = N, w_status = Resolved, w_fired = 1\<rparr>
                else \<lparr>w_name = N, w_status = Pending, w_fired = 0\<rparr>]\<rparr>)"
  by (auto simp: awaitOnce_def ensure_dir_def check_def testSynchronous_def)

lemma raise_no_faults:
  "raise no_faults N st = Inr (st\<lparr>dir_exists := True, markers := insert N (markers st)\<rparr>)"
  by (auto simp: raise_def ensure_dir_def insert_absorb)

lemma check_raised:
  "w_status w = Pending \<Longrightarrow> w_name w \<in> markers st \<Longrightarrow>
   check no_faults st w = w\<lparr>w_status := Resolved, w_fired := w_fired w + 1\<rparr>"
  by (simp add: check_def testSynchronous_def)

lemma raise_Inr:
  "raise flt N st = Inr st1 \<Longrightarrow>
   dir_exists st1 \<and> N \<in> markers st1 \<and> waiters st1 = waiters st"
  by (auto simp: raise_def ensure_dir_def split: if_splits option.splits)

lemma raise_again:
  "dir_exists st \<Longrightarrow> N \<in> markers st \<Longrightarrow> raise flt N st = Inr st"
  by (simp add: raise_def ensure_dir_def)

subsection \<open>Broadcast\<close>

text \<open>
  C7. Let \<open>N\<close> be a name that is not raised. Two calls of \<open>awaitOnce(N)\<close> register two
  pending waits; one \<open>raise(N)\<close> sets the marker; the next poll resolves both waits, each
  with its count at 1; and whatever store operations follow, under whatever failures, both
  stay resolved with their count at 1.
\<close>

theorem one_raise_resolves_both_waiters:
  fixes N :: string and st :: signal_store
  defines "w \<equiv> \<lparr>w_name = N, w_status = Pending, w_fired = 0\<rparr>"
    and "r \<equiv> \<lparr>w_name = N, w_status = Resolved, w_fired = 1\<rparr>"
    and "n \<equiv> length (waiters st)"
  defines "st1 \<equiv> st\<lparr>dir_exists := True, waiters := waiters st @ [w]\<rparr>"
    and "st2 \<equiv> st\<lparr>dir_exists := True, waiters := waiters st @ [w, w]\<rparr>"
  defines "st3 \<equiv> st2\<lparr>markers := insert N (markers st)\<rparr>"
  assumes unset: "N \<notin> markers st"
  shows "awaitOnce no_faults N st = Inr st1 \<and>
         awaitOnce no_faults N st1 = Inr st2 \<and>
         raise no_faults N st2 = Inr st3 \<and>
         waiters (poll no_faults st3) ! n = r \<and>
         waiters (poll no_faults st3) ! Suc n = r \<and>
         (\<forall>flt ops. waiters (apply_ops flt ops (poll no_faults st3)) ! n = r \<and>
                    waiters (apply_ops flt ops (poll no_faults st3)) ! Suc n = r)"
proof -
  have a: "awaitOnce no_faults N st = Inr st1"
    using unset by (simp add: awaitOnce_no_faults st1_def w_def)
  have b: "awaitOnce no_faults N st1 = Inr st2"
    using unset by (simp add: awaitOnce_no_faults st1_def st2_def w_def)
  have c: "raise no_faults N st2 = Inr st3"
    by (simp add: raise_no_faults st2_def st3_def)
  have cw: "check no_faults st3 w = r"
    unfolding w_def r_def st3_def by (simp add: check_def testSynchronous_def)
  have ws: "waiters st3 = waiters st @ [w, w]"
    by (simp add: st3_def st2_def)
  have p: "waiters (poll no_faults st3) = map (check no_faults st3) (waiters st) @ [r, r]"
    by (simp add: poll_def ws cw)
  have d: "waiters (poll no_faults st3) ! n = r" "waiters (poll no_faults st3) ! Suc n = r"
    by (simp_all add: p n_def nth_append)
  have len: "n < length (waiters (poll no_faults st3))" "Suc n < length (waiters (poll no_faults st3))"
    by (simp_all add: p n_def)
  have settled: "w_status (waiters (poll no_faults st3) ! n) \<noteq> Pending"
    "w_status (waiters (poll no_faults st3) ! Suc n) \<noteq> Pending"
    by (simp_all add: d r_def)
  have e: "waiters (apply_ops flt ops (poll no_faults st3)) ! n = r \<and>
           waiters (apply_ops flt ops (poll no_faults st3)) ! Suc n = r" for flt ops
    using apply_ops_settled [OF len(1) settled(1), of flt ops]
      apply_ops_settled [OF len(2) settled(2), of flt ops] d by simp
  show ?thesis
    using a b c d e by blast
qed


theorem one_raise_resolves_both_waiters_witness:
  "''foo'' \<notin> markers empty_store \<and>
   raise no_faults ''foo''
     (empty_store\<lparr>dir_exists := True,
        waiters := waiters empty_store @
          [\<lparr>w_name = ''foo'', w_status = Pending, w_fired = 0\<rparr>,
           \<lparr>w_name = ''foo'', w_status = Pending, w_fired = 0\<rparr>]\<rparr>) =
     Inr (empty_store\<lparr>dir_exists := True,
        waiters := waiters empty_store @
          [\<lparr>w_name = ''foo'', w_status = Pending, w_fired = 0\<rparr>,
           \<lparr>w_name = ''foo'', w_status = Pending, w_fired = 0\<rparr>],
        markers := insert ''foo'' (markers empty_store)\<rparr>) \<and>
   waiters (apply_ops no_faults [Raise ''foo'', Poll]
     (poll no_faults (empty_store\<lparr>dir_exists := True,
        waiters := waiters empty_store @
          [\<lparr>w_name = ''foo'', w_status = Pending, w_fired = 0\<rparr>,
           \<lparr>w_name = ''foo'', w_status = Pending, w_fired = 0\<rparr>],
        markers := insert ''foo'' (markers empty_store)\<rparr>))) ! 0 =
     \<lparr>w_name = ''foo'', w_status = Resolved, w_fired = 1\<rparr> \<and>
   waiters (apply_ops no_faults [Raise ''foo'', Poll]
     (poll no_faults (empty_store\<lparr>dir_exists := True,
        waiters := waiters empty_store @
          [\<lparr>w_name = ''foo'', w_status = Pending, w_fired = 0\<rparr>,
           \<lparr>w_name = ''foo'', w_status = Pending, w_fired = 0\<rparr>],
        markers := insert ''foo'' (markers empty_store)\<rparr>))) ! Suc 0 =
     \<lparr>w_name = ''foo'', w_status = Resolved, w_fired = 1\<rparr>"
proof -
  have a: "''foo'' \<notin> markers empty_store" by (simp add: empty_store_def)
  have n: "length (waiters empty_store) = 0" by (simp add: empty_store_def)
  from one_raise_resolves_both_waiters [OF a] a show ?thesis
    unfolding n by blast
qed

subsection \<open>Raising twice\<close>

text \<open>
  C8. Raising \<open>N\<close> twice in a row gives the caller the same result, and leaves the same
  store, as raising it once. After a raise that succeeded \<open>testSynchronous(N)\<close> is true,
  and every wait for \<open>N\<close> that was pending is resolved by the next poll with its count
  incremented by one, and keeps that count whatever follows.
\<close>

theorem raise_twice_same_as_once:
  "(case raise flt N st of Inl e \<Rightarrow> Inl e | Inr st1 \<Rightarrow> raise flt N st1) = raise flt N st \<and>
   (\<forall>st1. raise flt N st = Inr st1 \<longrightarrow>
      testSynchronous no_faults N st1 = Inr True \<and>
      (\<forall>i<length (waiters st).
         w_name (waiters st ! i) = N \<and> w_status (waiters st ! i) = Pending \<longrightarrow>
           waiters (poll no_faults st1) ! i =
             (waiters st ! i)\<lparr>w_status := Resolved, w_fired := w_fired (waiters st ! i) + 1\<rparr> \<and>
           (\<forall>flt' ops. waiters (apply_ops flt' ops (poll no_faults st1)) ! i =
                        waiters (poll no_faults st1) ! i)))"
proof -
  have a: "(case raise flt N st of Inl e \<Rightarrow> Inl e | Inr st1 \<Rightarrow> raise flt N st1) = raise flt N st"
  proof (cases "raise flt N st")
    case (Inl e)
    then show ?thesis by simp
  next
    case (Inr st1)
    with raise_Inr [OF Inr] show ?thesis by (simp add: raise_again)
  qed
  have b: "testSynchronous no_faults N st1 = Inr True \<and>
      (\<forall>i<length (waiters st).
         w_name (waiters st ! i) = N \<and> w_status (waiters st ! i) = Pending \<longrightarrow>
           waiters (poll no_faults st1) ! i =
             (waiters st ! i)\<lparr>w_status := Resolved, w_fired := w_fired (waiters st ! i) + 1\<rparr> \<and>
           (\<forall>flt' ops. waiters (apply_ops flt' ops (poll no_faults st1)) ! i =
                        waiters (poll no_faults st1) ! i))"
    if r: "raise flt N st = Inr st1" for st1
  proof -
    from raise_Inr [OF r] have m: "N \<in> markers st1" and ws: "waiters st1 = waiters st"
      by simp_all
    have t: "testSynchronous no_faults N st1 = Inr True"
      using m by (simp add: testSynchronous_def)
    have w: "waiters (poll no_faults st1) ! i =
             (waiters st ! i)\<lparr>w_status := Resolved, w_fired := w_fired (waiters st ! i) + 1\<rparr> \<and>
           (\<forall>flt' ops. waiters (apply_ops flt' ops (poll no_faults st1)) ! i =
                        waiters (poll no_faults st1) ! i)"
      if i: "i < length (waiters st)" and p: "w_name (waiters st ! i) = N"
        "w_status (waiters st ! i) = Pending" for i
    proof -
      have c: "waiters (poll no_faults st1) ! i =
             (waiters st ! i)\<lparr>w_status := Resolved, w_fired := w_fired (waiters st ! i) + 1\<rparr>"
        using i p m by (simp add: poll_def ws check_raised)
      have l: "i < length (waiters (poll no_faults st1))"
        using i by (simp add: poll_def ws)
      have s: "w_status (waiters (poll no_faults st1) ! i) \<noteq> Pending"
        by (simp add: c)
      from apply_ops_settled [OF l s] c show ?thesis by blast
    qed
    from t w show ?thesis by blast
  qed
  from a b show ?thesis by blast
qed

theorem raise_twice_same_as_once_witness:
  "raise no_faults ''foo'' (empty_store\<lparr>waiters := [\<lparr>w_name = ''foo'', w_status = Pending, w_fired = 0\<rparr>]\<rparr>) =
     Inr \<lparr>dir_exists = True, markers = {''foo''},
          waiters = [\<lparr>w_name = ''foo'', w_status = Pending, w_fired = 0\<rparr>]\<rparr> \<and>
   raise no_faults ''foo'' \<lparr>dir_exists = True, markers = {''foo''},
          waiters = [\<lparr>w_name = ''foo'', w_status = Pending, w_fired = 0\<rparr>]\<rparr> =
     Inr \<lparr>dir_exists = True, markers = {''foo''},
          waiters = [\<lparr>w_name = ''foo'', w_status = Pending, w_fired = 0\<rparr>]\<rparr> \<and>
   testSynchronous no_faults ''foo'' \<lparr>dir_exists = True, markers = {''foo''},
          waiters = [\<lparr>w_name = ''foo'', w_status = Pending, w_fired = 0\<rparr>]\<rparr> = Inr True \<and>
   waiters (poll no_faults \<lparr>dir_exists = True, markers = {''foo''},
          waiters = [\<lparr>w_name = ''foo'', w_status = Pending, w_fired = 0\<rparr>]\<rparr>) ! 0 =
     \<lparr>w_name = ''foo'', w_status = Resolved, w_fired = 1\<rparr>"
proof -
  let ?st = "empty_store\<lparr>waiters := [\<lparr>w_name = ''foo'', w_status = Pending, w_fired = 0\<rparr>]\<rparr>"
  let ?st1 = "\<lparr>dir_exists = True, markers = {''foo''},
          waiters = [\<lparr>w_name = ''foo'', w_status = Pending, w_fired = 0\<rparr>]\<rparr>"
  have a: "raise no_faults ''foo'' ?st = Inr ?st1"
    by (simp add: raise_no_faults empty_store_def)
  have i: "0 < length (waiters ?st)" by simp
  have p: "w_name (waiters ?st ! 0) = ''foo'' \<and> w_status (waiters ?st ! 0) = Pending" by simp
  from raise_twice_same_as_once [of no_faults "''foo''" ?st] a i p
  show ?thesis by (simp add: empty_store_def)
qed


subsection \<open>Failures\<close>

text \<open>
  C9. When creation fails and \<open>raise\<close> has something to create, \<open>raise\<close> returns the
  error; when it returns normally, the directory and the marker exist. When enumeration
  fails, or deletion fails with markers present, \<open>clearAll\<close> returns the error; when it
  returns normally no marker is left. \<open>awaitOnce\<close> returns the error when it cannot
  create the directory, and when the existence check fails the wait it registers is
  rejected with that error, as is a pending wait polled later; \<open>testSynchronous\<close>
  returns the error of a failed existence check.
\<close>

theorem store_failures_reach_the_caller:
  "(flt Create = Some e \<and> (\<not> dir_exists st \<or> N \<notin> markers st) \<longrightarrow> raise flt N st = Inl e) \<and>
   (\<forall>st1. raise flt N st = Inr st1 \<longrightarrow> dir_exists st1 \<and> N \<in> markers st1) \<and>
   (flt Enumerate = Some e \<longrightarrow> clearAll flt st = Inl e) \<and>
   (flt Enumerate = None \<and> flt Delete = Some e \<and> markers st \<noteq> {} \<longrightarrow> clearAll flt st = Inl e) \<and>
   (\<forall>st1. clearAll flt st = Inr st1 \<longrightarrow> markers st1 = {}) \<and>
   (flt Create = Some e \<and> \<not> dir_exists st \<longrightarrow> awaitOnce flt N st = Inl e) \<and>
   ((dir_exists st \<or> flt Create = None) \<and> flt Exists = Some e \<longrightarrow>
      awaitOnce flt N st =
        Inr (st\<lparr>dir_exists := True,
                waiters := waiters st @ [\<lparr>w_name = N, w_status = Rejected e, w_fired = 0\<rparr>]\<rparr>)) \<and>
   (flt Exists = Some e \<and> w_status w = Pending \<longrightarrow>
      check flt st w = w\<lparr>w_status := Rejected e\<rparr>) \<and>
   (flt Exists = Some e \<longrightarrow> testSynchronous flt N st = Inl e)"
  by (auto simp: raise_def ensure_dir_def clearAll_def awaitOnce_def check_def testSynchronous_def
        split: option.splits if_splits)

theorem store_failures_reach_the_caller_witness:
  "raise write_denied ''foo'' empty_store = Inl (IOError ''EACCES'') \<and>
   clearAll readdir_fails empty_store = Inl (IOError ''readdirSync error'') \<and>
   awaitOnce write_denied ''foo'' empty_store = Inl (IOError ''EACCES'') \<and>
   awaitOnce exists_fails ''foo'' empty_store =
     Inr (empty_store\<lparr>dir_exists := True,
            waiters := waiters empty_store @
              [\<lparr>w_name = ''foo'', w_status = Rejected (IOError ''existsSync error''), w_fired = 0\<rparr>]\<rparr>)"
proof -
  have a: "write_denied Create = Some (IOError ''EACCES'')" by (simp add: write_denied_def)
  have b: "\<not> dir_exists empty_store" by (simp add: empty_store_def)
  have c: "readdir_fails Enumerate = Some (IOError ''readdirSync error'')"
    by (simp add: readdir_fails_def)
  have d: "exists_fails Create = None" "exists_fails Exists = Some (IOError ''existsSync error'')"
    by (simp_all add: exists_fails_def)
  from store_failures_reach_the_caller [of write_denied "IOError ''EACCES''" empty_store "''foo''"] a b
  have 1: "raise write_denied ''foo'' empty_store = Inl (IOError ''EACCES'')"
    and 3: "awaitOnce write_denied ''foo'' empty_store = Inl (IOError ''EACCES'')"
    by blast+
  from store_failures_reach_the_caller [of readdir_fails "IOError ''readdirSync error''" empty_store] c
  have 2: "clearAll readdir_fails empty_store = Inl (IOError ''readdirSync error'')"
    by blast
  from store_failures_reach_the_caller
         [of exists_fails "IOError ''existsSync error''" empty_store "''foo''"] d
  have 4: "awaitOnce exists_fails ''foo'' empty_store =
     Inr (empty_store\<lparr>dir_exists := True,
            waiters := waiters empty_store @
              [\<lparr>w_name = ''foo'', w_status = Rejected (IOError ''existsSync error''), w_fired = 0\<rparr>]\<rparr>)"
    by blast
  from 1 2 3 4 show ?thesis by blast
qed


section \<open>Properties of the onboarding worker\<close>

text \<open>
  C10. While the wait for \<open>CLOUD_LIBS_ERROR\<close> is outstanding, observing that signal makes
  the worker send its done signal (the \<open>--signal\<close> option when it is given and not empty,
  \<open>ONBOARD_DONE\<close> otherwise) and then call \<open>util.logAndExit\<close>; this happens whether or
  not the chain has finished, and leaves \<open>rebooting\<close>, \<open>exiting\<close> and the state of the
  chain as they were. So the done signal can be sent by a worker whose chain never reached
  its \<open>done\<close> handler.
\<close>

theorem error_signal_sends_done_and_exits:
  assumes "error_wait w"
  shows "effects (onboard_step sg ErrorSignalObserved w) =
           effects w @
             [IpcSend (case opt_signal w of
                         None \<Rightarrow> ONBOARD_DONE sg
                       | Some s \<Rightarrow> if s = [] then ONBOARD_DONE sg else s),
              LogAndExit ''ERROR signaled from other script. Exiting'' None None] \<and>
         chain_done (onboard_step sg ErrorSignalObserved w) = chain_done w \<and>
         exiting (onboard_step sg ErrorSignalObserved w) = exiting w \<and>
         rebooting (onboard_step sg ErrorSignalObserved w) = rebooting w"
  using assms
  by (simp add: onboard_step_def on_cloud_libs_error_def emit_def done_signal_def)

theorem error_signal_sends_done_and_exits_witness:
  "error_wait (onboard_started None True (Some ''admin'') False) \<and>
   \<not> chain_done (onboard_step registry ErrorSignalObserved
                   (onboard_started None True (Some ''admin'') False)) \<and>
   effects (onboard_step registry ErrorSignalObserved
              (onboard_started None True (Some ''admin'') False)) =
     [IpcSend ''ONBOARD_DONE'',
      LogAndExit ''ERROR signaled from other script. Exiting'' None None] \<and>
   effects (onboard_step registry ErrorSignalObserved
              (onboard_started (Some ''MY_DONE'') True (Some ''admin'') False)) =
     [IpcSend ''MY_DONE'',
      LogAndExit ''ERROR signaled from other script. Exiting'' None None]"
proof -
  have a: "error_wait (onboard_started None True (Some ''admin'') False)"
    by (simp add: onboard_started_def)
  have b: "error_wait (onboard_started (Some ''MY_DONE'') True (Some ''admin'') False)"
    by (simp add: onboard_started_def)
  from error_signal_sends_done_and_exits [OF a, of registry]
       error_signal_sends_done_and_exits [OF b, of registry] a
  show ?thesis by (simp add: onboard_started_def registry_def)
qed


end
